theory Spec2Isabelle
  imports Main "HOL-Library.Word"
begin

section \<open>The PDF to HTML conversion script\<close>

text \<open>
  The program is the module body of \<^verbatim>\<open>convert_to_html.py\<close>: it opens a PDF at a fixed
  path for binary reading, hands the stream to the extraction entry point of the PDF
  library together with an in-memory text sink, writes the sink's contents to a fixed
  destination opened for UTF-8 text writing, and prints one line.

  Everything the script does is an effect, so the model threads a \<open>world\<close> through the
  statements: the files and directories of the filesystem, what the process may not open,
  the platform's line separator, the text sent to standard output, and the sequence of
  file and library events of the run. Every raise of the runtime is a value of \<open>error\<close>,
  and the run returns how the process ended together with the world it left.
\<close>

subsection \<open>Data\<close>

type_synonym path = string

type_synonym byte = "8 word"

text \<open>A Python \<^verbatim>\<open>str\<close> is a sequence of Unicode code points.\<close>

type_synonym pystr = "nat list"

text \<open>
  A layout-parameters object is recorded by the keyword arguments its constructor was
  given (name and literal value); \<^verbatim>\<open>LAParams()\<close> gives none, so every parameter has
  the library's default.
\<close>

datatype laparams = LAParams "(string \<times> string) list"

text \<open>The arguments of one call of \<^verbatim>\<open>extract_text_to_fp\<close>, apart from the sink.\<close>

record extract_call =
  source_bytes :: "byte list"
  laparams :: laparams
  output_type :: string
  codec :: "string option"

datatype error =
    FileNotFoundError
  | PermissionError
  | IsADirectoryError
  | UnicodeEncodeError
  | ExtractionError string

text \<open>
  The extraction library is not part of the program: it is a parameter of the run, a
  function of the call's arguments that either raises or returns the text it has written
  to the sink.
\<close>

type_synonym extractor = "extract_call \<Rightarrow> error + pystr"

datatype event =
    Open path string
  | OpenFailed path string
  | Close path
  | Call extract_call
  | Write path
  | WriteFailed path
  | Print

record world =
  files :: "path \<rightharpoonup> byte list"
  dirs :: "path set"
  unreadable :: "path set"
  unwritable :: "path set"
  linesep :: pystr
  stdout :: string
  trace :: "event list"

datatype outcome = Exit0 | Unhandled error

text \<open>An uncaught exception ends the interpreter with status 1, a finished module with 0.\<close>

fun exit_status :: "outcome \<Rightarrow> nat" where
  "exit_status Exit0 = 0"
| "exit_status (Unhandled e) = 1"

text \<open>The exceptions that are subclasses of \<^verbatim>\<open>OSError\<close> (of which \<^verbatim>\<open>IOError\<close> is an alias).\<close>

fun is_OSError :: "error \<Rightarrow> bool" where
  "is_OSError FileNotFoundError = True"
| "is_OSError PermissionError = True"
| "is_OSError IsADirectoryError = True"
| "is_OSError UnicodeEncodeError = False"
| "is_OSError (ExtractionError n) = False"

subsection \<open>The two paths\<close>

text \<open>
  Both paths are raw string literals with backslash separators; the separator is written
  \<open>bsl\<close> here.
\<close>

definition bsl :: string where
  "bsl = [CHR 0x5C]"

definition pdf_path :: path where
  "pdf_path = concat [''C:'', bsl, ''Users'', bsl, ''renzy'', bsl, ''Downloads'', bsl,
     ''CODE'', bsl, ''New folder'', bsl, ''smdi-test1'', bsl, ''user-workspace'', bsl,
     ''Electrical_Inspection_Checklists.pdf'']"

definition html_path :: path where
  "html_path = concat [''C:'', bsl, ''Users'', bsl, ''renzy'', bsl, ''Downloads'', bsl,
     ''Electrical_Inspection_Checklists.html'']"

subsection \<open>The runtime's file operations\<close>

text \<open>The directory a path lies in: everything before its last separator.\<close>

definition parent_dir :: "path \<Rightarrow> path" where
  "parent_dir p = rev (drop 1 (dropWhile (\<lambda>c. c \<noteq> CHR 0x5C \<and> c \<noteq> CHR ''/'') (rev p)))"

text \<open>
  \<^verbatim>\<open>open(p, 'rb')\<close>: the file's bytes, or the raise. Opening a directory raises an
  \<^verbatim>\<open>OSError\<close> whose subclass depends on the platform; it stands as \<open>IsADirectoryError\<close>.
\<close>

definition open_rb :: "world \<Rightarrow> path \<Rightarrow> error + byte list" where
  "open_rb w p =
     (if p \<in> dirs w then Inl IsADirectoryError
      else case files w p of
        None \<Rightarrow> Inl FileNotFoundError
      | Some bs \<Rightarrow> if p \<in> unreadable w then Inl PermissionError else Inr bs)"

text \<open>
  \<^verbatim>\<open>open(p, 'w', encoding='utf-8')\<close>: the file is created when absent and cut to length
  zero when present; the stream stands at its start.
\<close>

definition open_w :: "world \<Rightarrow> path \<Rightarrow> error + world" where
  "open_w w p =
     (if p \<in> dirs w then Inl IsADirectoryError
      else if parent_dir p \<notin> dirs w then Inl FileNotFoundError
      else if p \<in> unwritable w then Inl PermissionError
      else Inr (w\<lparr>files := (files w)(p \<mapsto> [])\<rparr>))"

text \<open>
  The UTF-8 codec with strict error handling: one to four bytes for a code point, and a
  raise for a surrogate (and for a number that is no code point, which a \<^verbatim>\<open>str\<close> never
  holds).
\<close>

definition utf8_char :: "nat \<Rightarrow> error + byte list" where
  "utf8_char c =
     (if c < 0x80 then Inr [of_nat c]
      else if c < 0x800 then Inr [of_nat (0xC0 + c div 64), of_nat (0x80 + c mod 64)]
      else if 0xD800 \<le> c \<and> c < 0xE000 then Inl UnicodeEncodeError
      else if c < 0x10000 then
        Inr [of_nat (0xE0 + c div 4096), of_nat (0x80 + c div 64 mod 64),
             of_nat (0x80 + c mod 64)]
      else if c < 0x110000 then
        Inr [of_nat (0xF0 + c div 262144), of_nat (0x80 + c div 4096 mod 64),
             of_nat (0x80 + c div 64 mod 64), of_nat (0x80 + c mod 64)]
      else Inl UnicodeEncodeError)"

fun utf8_encode :: "pystr \<Rightarrow> error + byte list" where
  "utf8_encode [] = Inr []"
| "utf8_encode (c # cs) =
     (case utf8_char c of
        Inl e \<Rightarrow> Inl e
      | Inr bs \<Rightarrow> (case utf8_encode cs of Inl e \<Rightarrow> Inl e | Inr rest \<Rightarrow> Inr (bs @ rest)))"

text \<open>
  A text stream opened without a \<^verbatim>\<open>newline\<close> argument replaces every line feed written to
  it by the platform's line separator.
\<close>

definition translate_newlines :: "pystr \<Rightarrow> pystr \<Rightarrow> pystr" where
  "translate_newlines sep s = concat (map (\<lambda>c. if c = 10 then sep else [c]) s)"

text \<open>
  \<^verbatim>\<open>out_file.write(s)\<close> on the text stream of \<open>p\<close>: the translated text is encoded as a
  whole, and only then are its bytes put at the stream's position, the end of what the
  file holds.
\<close>

definition text_write :: "world \<Rightarrow> path \<Rightarrow> pystr \<Rightarrow> error + world" where
  "text_write w p s =
     (case utf8_encode (translate_newlines (linesep w) s) of
        Inl e \<Rightarrow> Inl e
      | Inr bs \<Rightarrow>
          Inr (w\<lparr>files := (files w)(p \<mapsto> (case files w p of None \<Rightarrow> bs | Some old \<Rightarrow> old @ bs))\<rparr>))"

definition log :: "event \<Rightarrow> world \<Rightarrow> world" where
  "log e w = w\<lparr>trace := trace w @ [e]\<rparr>"

text \<open>\<^verbatim>\<open>print(s)\<close>: the text and a line feed go to standard output.\<close>

definition print :: "string \<Rightarrow> world \<Rightarrow> world" where
  "print s w = log Print (w\<lparr>stdout := stdout w @ s @ [CHR 0x0A]\<rparr>)"

subsection \<open>The program\<close>

text \<open>
  The module body, statement by statement. A \<^verbatim>\<open>with\<close> block closes its file when the
  block is left, by its end or by a raise. Nothing catches an exception, so the first
  raise ends the run.
\<close>

definition run :: "extractor \<Rightarrow> world \<Rightarrow> outcome \<times> world" where
  "run extract_text_to_fp w =
     (let output_string = ([] :: pystr) in
      (case open_rb w pdf_path of
         Inl e \<Rightarrow> (Unhandled e, log (OpenFailed pdf_path ''rb'') w)
       | Inr in_file \<Rightarrow>
          (let w1 = log (Open pdf_path ''rb'') w;
               args = \<lparr>source_bytes = in_file, laparams = LAParams [], output_type = ''html'',
                       codec = None\<rparr>;
               w2 = log (Close pdf_path) (log (Call args) w1)
           in (case extract_text_to_fp args of
                 Inl e \<Rightarrow> (Unhandled e, w2)
               | Inr written \<Rightarrow>
                  (let output_string = output_string @ written in
                   (case open_w w2 html_path of
                      Inl e \<Rightarrow> (Unhandled e, log (OpenFailed html_path ''w'') w2)
                    | Inr w3 \<Rightarrow>
                       (let w4 = log (Open html_path ''w'') w3 in
                        (case text_write w4 html_path output_string of
                           Inl e \<Rightarrow>
                            (Unhandled e,
                             log (Close html_path) (log (WriteFailed html_path) w4))
                         | Inr w5 \<Rightarrow>
                            (let w6 = log (Close html_path) (log (Write html_path) w5)
                             in (Exit0, print (''HTML saved to '' @ html_path) w6))))))))))"

subsection \<open>Observing a run\<close>

text \<open>The call the program makes on a source of bytes \<open>bs\<close>, for short.\<close>

abbreviation the_call :: "byte list \<Rightarrow> extract_call" where
  "the_call bs \<equiv> \<lparr>source_bytes = bs, laparams = LAParams [], output_type = ''html'', codec = None\<rparr>"

text \<open>The events a run adds to the trace it started with.\<close>

definition new_events :: "extractor \<Rightarrow> world \<Rightarrow> event list" where
  "new_events X w = drop (length (trace w)) (trace (snd (run X w)))"

text \<open>The library calls among some events, with their arguments, in order.\<close>

fun calls :: "event list \<Rightarrow> extract_call list" where
  "calls [] = []"
| "calls (Call a # es) = a # calls es"
| "calls (e # es) = calls es"

text \<open>The events up to and including the first library call (all of them when there is none).\<close>

fun upto_call :: "event list \<Rightarrow> event list" where
  "upto_call [] = []"
| "upto_call (Call a # es) = [Call a]"
| "upto_call (e # es) = e # upto_call es"

text \<open>How often the events try to open a path, with or without success.\<close>

fun open_attempts :: "path \<Rightarrow> event list \<Rightarrow> nat" where
  "open_attempts p [] = 0"
| "open_attempts p (Open q m # es) = (if q = p then 1 else 0) + open_attempts p es"
| "open_attempts p (OpenFailed q m # es) = (if q = p then 1 else 0) + open_attempts p es"
| "open_attempts p (e # es) = open_attempts p es"

text \<open>Whether an event concerns the file at a path.\<close>

fun touches :: "path \<Rightarrow> event \<Rightarrow> bool" where
  "touches p (Open q m) = (q = p)"
| "touches p (OpenFailed q m) = (q = p)"
| "touches p (Close q) = (q = p)"
| "touches p (Write q) = (q = p)"
| "touches p (WriteFailed q) = (q = p)"
| "touches p (Call a) = False"
| "touches p Print = False"

text \<open>
  A monitor for the scoping of file handles. At any moment no handle is open, or one is
  open and not yet used, or one is open and has been used. A handle is opened only when
  none is open; the source's handle is used by the extraction call and by nothing else,
  the destination's by the write and by nothing else; a used handle is closed by the next
  event; opens that fail and printing happen only when no handle is open. A sequence of
  events is \<open>scoped\<close> when the monitor accepts every event and ends with no handle open.
\<close>

datatype handle_state = NoHandle | Fresh path | Used path

fun scope_step :: "handle_state \<Rightarrow> event \<Rightarrow> handle_state option" where
  "scope_step NoHandle (Open p m) = Some (Fresh p)"
| "scope_step NoHandle (OpenFailed p m) = Some NoHandle"
| "scope_step NoHandle Print = Some NoHandle"
| "scope_step (Fresh p) (Call a) = (if p = pdf_path then Some (Used p) else None)"
| "scope_step (Fresh p) (Write q) = (if p = html_path \<and> q = p then Some (Used p) else None)"
| "scope_step (Fresh p) (WriteFailed q) =
     (if p = html_path \<and> q = p then Some (Used p) else None)"
| "scope_step (Used p) (Close q) = (if q = p then Some NoHandle else None)"
| "scope_step s e = None"

fun scoped :: "handle_state \<Rightarrow> event list \<Rightarrow> bool" where
  "scoped s [] = (s = NoHandle)"
| "scoped s (e # es) = (case scope_step s e of None \<Rightarrow> False | Some s' \<Rightarrow> scoped s' es)"

subsection \<open>Sample worlds and extractors\<close>

text \<open>A four-byte source (the PDF magic number) and some destination content to lose.\<close>

definition pdf_bytes :: "byte list" where
  "pdf_bytes = [0x25, 0x50, 0x44, 0x46]"

definition stale_bytes :: "byte list" where
  "stale_bytes = [0x6F, 0x6C, 0x64]"

text \<open>A Windows machine with the source in place and the destination's directory present.\<close>

definition windows_world :: world where
  "windows_world =
     \<lparr>files = [pdf_path \<mapsto> pdf_bytes],
      dirs = {parent_dir pdf_path, parent_dir html_path},
      unreadable = {}, unwritable = {},
      linesep = [13, 10], stdout = [], trace = []\<rparr>"

text \<open>The same machine with a destination file left by something else.\<close>

definition stale_world :: world where
  "stale_world = windows_world\<lparr>files := [pdf_path \<mapsto> pdf_bytes, html_path \<mapsto> stale_bytes]\<rparr>"

text \<open>No source file, and a destination file that is there.\<close>

definition sourceless_world :: world where
  "sourceless_world = windows_world\<lparr>files := [html_path \<mapsto> stale_bytes]\<rparr>"

text \<open>The source in place, the destination's directory absent.\<close>

definition dirless_world :: world where
  "dirless_world = windows_world\<lparr>dirs := {parent_dir pdf_path}\<rparr>"

text \<open>
  Extractors: one line of markup, a tag with no line end, a lone line feed, nothing, a lone
  surrogate, a raise.
\<close>

definition markup_extract :: extractor where
  "markup_extract a = Inr [60, 98, 114, 62, 10]"

definition tag_extract :: extractor where
  "tag_extract a = Inr [60, 98, 114, 62]"

definition newline_extract :: extractor where
  "newline_extract a = Inr [10]"

definition empty_extract :: extractor where
  "empty_extract a = Inr []"

definition surrogate_extract :: extractor where
  "surrogate_extract a = Inr [0xD800]"

definition failing_extract :: extractor where
  "failing_extract a = Inl (ExtractionError ''PDFSyntaxError'')"

section \<open>Properties\<close>

subsection \<open>The run, case by case\<close>

lemma paths_distinct: "pdf_path \<noteq> html_path"
  by (simp add: pdf_path_def html_path_def bsl_def)

lemma html_not_parent: "html_path \<noteq> parent_dir html_path"
  by (simp add: parent_dir_def html_path_def bsl_def)

lemma open_w_log: "open_w (log ev w) p = map_sum id (log ev) (open_w w p)"
  by (simp add: open_w_def log_def)

lemma run_source_fails:
  "open_rb w pdf_path = Inl e \<Longrightarrow> run X w = (Unhandled e, log (OpenFailed pdf_path ''rb'') w)"
  by (simp add: run_def)

lemma run_extract_fails:
  "open_rb w pdf_path = Inr bs \<Longrightarrow> X (the_call bs) = Inl e \<Longrightarrow>
   run X w = (Unhandled e,
     w\<lparr>trace := trace w @ [Open pdf_path ''rb'', Call (the_call bs), Close pdf_path]\<rparr>)"
  by (simp add: run_def log_def)

lemma run_dest_fails:
  "open_rb w pdf_path = Inr bs \<Longrightarrow> X (the_call bs) = Inr buf \<Longrightarrow>
   open_w w html_path = Inl e \<Longrightarrow>
   run X w = (Unhandled e,
     w\<lparr>trace := trace w @ [Open pdf_path ''rb'', Call (the_call bs), Close pdf_path,
          OpenFailed html_path ''w'']\<rparr>)"
  by (simp add: run_def open_w_log) (simp add: log_def)

lemma run_write_fails:
  "open_rb w pdf_path = Inr bs \<Longrightarrow> X (the_call bs) = Inr buf \<Longrightarrow>
   open_w w html_path = Inr wd \<Longrightarrow>
   utf8_encode (translate_newlines (linesep w) buf) = Inl e \<Longrightarrow>
   run X w = (Unhandled e,
     w\<lparr>files := (files w)(html_path \<mapsto> []),
       trace := trace w @ [Open pdf_path ''rb'', Call (the_call bs), Close pdf_path,
          Open html_path ''w'', WriteFailed html_path, Close html_path]\<rparr>)"
  by (auto simp add: run_def open_w_log text_write_def log_def open_w_def split: if_splits)

lemma run_succeeds:
  "open_rb w pdf_path = Inr bs \<Longrightarrow> X (the_call bs) = Inr buf \<Longrightarrow>
   open_w w html_path = Inr wd \<Longrightarrow>
   utf8_encode (translate_newlines (linesep w) buf) = Inr out \<Longrightarrow>
   run X w = (Exit0,
     w\<lparr>files := (files w)(html_path \<mapsto> out),
       stdout := stdout w @ ''HTML saved to '' @ html_path @ [CHR 0x0A],
       trace := trace w @ [Open pdf_path ''rb'', Call (the_call bs), Close pdf_path,
          Open html_path ''w'', Write html_path, Close html_path, Print]\<rparr>)"
  by (auto simp add: run_def open_w_log text_write_def log_def open_w_def print_def
      split: if_splits)

text \<open>Every run is one of five: it stops at one of the four raises, or it finishes.\<close>

lemma run_cases [case_names source_fails extract_fails dest_fails write_fails succeeds]:
  obtains
    e where "open_rb w pdf_path = Inl e"
      "run X w = (Unhandled e, w\<lparr>trace := trace w @ [OpenFailed pdf_path ''rb'']\<rparr>)"
  | bs e where "open_rb w pdf_path = Inr bs" "X (the_call bs) = Inl e"
      "run X w = (Unhandled e,
         w\<lparr>trace := trace w @ [Open pdf_path ''rb'', Call (the_call bs), Close pdf_path]\<rparr>)"
  | bs buf e where "open_rb w pdf_path = Inr bs" "X (the_call bs) = Inr buf"
      "open_w w html_path = Inl e"
      "run X w = (Unhandled e,
         w\<lparr>trace := trace w @ [Open pdf_path ''rb'', Call (the_call bs), Close pdf_path,
            OpenFailed html_path ''w'']\<rparr>)"
  | bs buf wd e where "open_rb w pdf_path = Inr bs" "X (the_call bs) = Inr buf"
      "open_w w html_path = Inr wd"
      "utf8_encode (translate_newlines (linesep w) buf) = Inl e"
      "run X w = (Unhandled e,
         w\<lparr>files := (files w)(html_path \<mapsto> []),
           trace := trace w @ [Open pdf_path ''rb'', Call (the_call bs), Close pdf_path,
             Open html_path ''w'', WriteFailed html_path, Close html_path]\<rparr>)"
  | bs buf wd out where "open_rb w pdf_path = Inr bs" "X (the_call bs) = Inr buf"
      "open_w w html_path = Inr wd"
      "utf8_encode (translate_newlines (linesep w) buf) = Inr out"
      "run X w = (Exit0,
         w\<lparr>files := (files w)(html_path \<mapsto> out),
           stdout := stdout w @ ''HTML saved to '' @ html_path @ [CHR 0x0A],
           trace := trace w @ [Open pdf_path ''rb'', Call (the_call bs), Close pdf_path,
             Open html_path ''w'', Write html_path, Close html_path, Print]\<rparr>)"
proof (cases "open_rb w pdf_path")
  case (Inl e)
  with that(1) show ?thesis by (simp add: run_source_fails log_def)
next
  case src: (Inr bs)
  show ?thesis
  proof (cases "X (the_call bs)")
    case (Inl e)
    with src that(2) show ?thesis by (simp add: run_extract_fails)
  next
    case ext: (Inr buf)
    show ?thesis
    proof (cases "open_w w html_path")
      case (Inl e)
      with src ext that(3) show ?thesis by (simp add: run_dest_fails)
    next
      case dst: (Inr wd)
      show ?thesis
      proof (cases "utf8_encode (translate_newlines (linesep w) buf)")
        case (Inl e)
        with src ext dst that(4) show ?thesis by (simp add: run_write_fails)
      next
        case (Inr out)
        with src ext dst that(5) show ?thesis by (simp add: run_succeeds)
      qed
    qed
  qed
qed

lemma open_w_conditions:
  "(\<exists>wd. open_w w p = Inr wd) \<longleftrightarrow>
     p \<notin> dirs w \<and> parent_dir p \<in> dirs w \<and> p \<notin> unwritable w"
  by (simp add: open_w_def)

lemma open_w_error: "open_w w p = Inl e \<Longrightarrow> is_OSError e"
  by (auto simp add: open_w_def split: if_splits)

lemma open_rb_error: "open_rb w p = Inl e \<Longrightarrow> is_OSError e"
  by (auto simp add: open_rb_def split: if_splits option.splits)

lemma run_keeps:
  "dirs (snd (run X w)) = dirs w" "unreadable (snd (run X w)) = unreadable w"
  "unwritable (snd (run X w)) = unwritable w" "linesep (snd (run X w)) = linesep w"
  "p \<noteq> html_path \<Longrightarrow> files (snd (run X w)) p = files w p"
  by (cases rule: run_cases [of w X]; simp)+

lemma open_rb_after_run: "open_rb (snd (run X w)) pdf_path = open_rb w pdf_path"
  by (simp add: open_rb_def run_keeps paths_distinct cong: option.case_cong)

lemma open_w_after_run:
  "open_w (snd (run X w)) html_path = Inl e \<longleftrightarrow> open_w w html_path = Inl e"
  by (simp add: open_w_def run_keeps)

subsection \<open>The text layer\<close>

lemma translate_newlines_lf: "translate_newlines [10] s = s"
  by (induction s) (simp_all add: translate_newlines_def)

lemma translate_newlines_none: "10 \<notin> set s \<Longrightarrow> translate_newlines sep s = s"
  by (induction s) (simp_all add: translate_newlines_def)

text \<open>
  The codec on a dollar sign, an e with acute accent, a euro sign and an emoji, of one,
  two, three and four bytes; and on a text holding a lone surrogate.
\<close>

lemma utf8_samples:
  "utf8_encode [0x24, 0xE9, 0x20AC, 0x1F600] =
     Inr [0x24, 0xC3, 0xA9, 0xE2, 0x82, 0xAC, 0xF0, 0x9F, 0x98, 0x80]"
  "utf8_encode [0x61, 0xD800] = Inl UnicodeEncodeError"
  by (simp_all add: utf8_char_def)

subsection \<open>The sample worlds\<close>

lemma dir_facts:
  "pdf_path \<noteq> parent_dir pdf_path" "pdf_path \<noteq> parent_dir html_path"
  "html_path \<noteq> parent_dir pdf_path" "parent_dir html_path \<noteq> parent_dir pdf_path"
  by (simp_all add: parent_dir_def html_path_def pdf_path_def bsl_def)

lemma open_rb_windows: "open_rb windows_world pdf_path = Inr pdf_bytes"
  by (simp add: open_rb_def windows_world_def dir_facts)

lemma open_rb_stale: "open_rb stale_world pdf_path = Inr pdf_bytes"
  by (simp add: open_rb_def stale_world_def windows_world_def dir_facts paths_distinct)

lemma open_rb_sourceless: "open_rb sourceless_world pdf_path = Inl FileNotFoundError"
  by (simp add: open_rb_def sourceless_world_def windows_world_def dir_facts paths_distinct)

lemma open_rb_dirless: "open_rb dirless_world pdf_path = Inr pdf_bytes"
  by (simp add: open_rb_def dirless_world_def windows_world_def dir_facts)

lemma open_w_windows:
  "open_w windows_world html_path =
     Inr (windows_world\<lparr>files := (files windows_world)(html_path \<mapsto> [])\<rparr>)"
  by (simp add: open_w_def windows_world_def dir_facts html_not_parent)

lemma open_w_stale:
  "open_w stale_world html_path =
     Inr (stale_world\<lparr>files := (files stale_world)(html_path \<mapsto> [])\<rparr>)"
  by (simp add: open_w_def stale_world_def windows_world_def dir_facts html_not_parent)

lemma open_w_dirless: "open_w dirless_world html_path = Inl FileNotFoundError"
  by (simp add: open_w_def dirless_world_def windows_world_def dir_facts html_not_parent)

lemma windows_ok:
  "html_path \<notin> dirs windows_world" "parent_dir html_path \<in> dirs windows_world"
  "html_path \<notin> unwritable windows_world"
  by (simp_all add: windows_world_def dir_facts html_not_parent)

lemma stale_ok:
  "html_path \<notin> dirs stale_world" "parent_dir html_path \<in> dirs stale_world"
  "html_path \<notin> unwritable stale_world"
  by (simp_all add: stale_world_def windows_world_def dir_facts html_not_parent)

lemma dirless_no_dir: "parent_dir html_path \<notin> dirs dirless_world"
  by (simp add: dirless_world_def windows_world_def dir_facts)

lemma sample_destinations:
  "files windows_world html_path = None" "files stale_world html_path = Some stale_bytes"
  "files dirless_world html_path = None" "files sourceless_world html_path = Some stale_bytes"
  by (simp_all add: windows_world_def stale_world_def dirless_world_def sourceless_world_def
      paths_distinct [symmetric])

lemma sample_calls:
  "markup_extract (the_call pdf_bytes) = Inr [60, 98, 114, 62, 10]"
  "tag_extract (the_call pdf_bytes) = Inr [60, 98, 114, 62]"
  "newline_extract (the_call pdf_bytes) = Inr [10]"
  "empty_extract (the_call pdf_bytes) = Inr []"
  "surrogate_extract (the_call pdf_bytes) = Inr [0xD800]"
  "failing_extract (the_call pdf_bytes) = Inl (ExtractionError ''PDFSyntaxError'')"
  by (simp_all add: markup_extract_def tag_extract_def newline_extract_def empty_extract_def
      surrogate_extract_def failing_extract_def)

lemma run_markup_stale:
  "run markup_extract stale_world =
     (Exit0,
      stale_world\<lparr>files := (files stale_world)(html_path \<mapsto> [60, 98, 114, 62, 13, 10]),
        stdout := stdout stale_world @ ''HTML saved to '' @ html_path @ [CHR 0x0A],
        trace := trace stale_world @ [Open pdf_path ''rb'', Call (the_call pdf_bytes),
          Close pdf_path, Open html_path ''w'', Write html_path, Close html_path, Print]\<rparr>)"
  by (rule run_succeeds [where buf = "[60, 98, 114, 62, 10]", OF open_rb_stale _ open_w_stale])
     (simp_all add: sample_calls stale_world_def windows_world_def translate_newlines_def
        utf8_char_def)

lemma run_markup_windows:
  "run markup_extract windows_world =
     (Exit0,
      windows_world\<lparr>files := (files windows_world)(html_path \<mapsto> [60, 98, 114, 62, 13, 10]),
        stdout := stdout windows_world @ ''HTML saved to '' @ html_path @ [CHR 0x0A],
        trace := trace windows_world @ [Open pdf_path ''rb'', Call (the_call pdf_bytes),
          Close pdf_path, Open html_path ''w'', Write html_path, Close html_path, Print]\<rparr>)"
  by (rule run_succeeds [where buf = "[60, 98, 114, 62, 10]",
        OF open_rb_windows _ open_w_windows])
     (simp_all add: sample_calls windows_world_def translate_newlines_def utf8_char_def)

lemma run_tag_stale:
  "run tag_extract stale_world =
     (Exit0,
      stale_world\<lparr>files := (files stale_world)(html_path \<mapsto> [60, 98, 114, 62]),
        stdout := stdout stale_world @ ''HTML saved to '' @ html_path @ [CHR 0x0A],
        trace := trace stale_world @ [Open pdf_path ''rb'', Call (the_call pdf_bytes),
          Close pdf_path, Open html_path ''w'', Write html_path, Close html_path, Print]\<rparr>)"
  by (rule run_succeeds [where buf = "[60, 98, 114, 62]", OF open_rb_stale _ open_w_stale])
     (simp_all add: sample_calls stale_world_def windows_world_def translate_newlines_def
        utf8_char_def)

lemma run_newline_stale:
  "run newline_extract stale_world =
     (Exit0,
      stale_world\<lparr>files := (files stale_world)(html_path \<mapsto> [13, 10]),
        stdout := stdout stale_world @ ''HTML saved to '' @ html_path @ [CHR 0x0A],
        trace := trace stale_world @ [Open pdf_path ''rb'', Call (the_call pdf_bytes),
          Close pdf_path, Open html_path ''w'', Write html_path, Close html_path, Print]\<rparr>)"
  by (rule run_succeeds [where buf = "[10]", OF open_rb_stale _ open_w_stale])
     (simp_all add: sample_calls stale_world_def windows_world_def translate_newlines_def
        utf8_char_def)

text \<open>The monitor for handle scopes is no empty requirement: it turns down a handle
  left open, a second handle opened beside the first, and a handle held across an event
  that is not its own.\<close>

lemma scoped_rejects:
  "\<not> scoped NoHandle [Open pdf_path ''rb'', Call a]"
  "\<not> scoped NoHandle [Open pdf_path ''rb'', Open html_path ''w'', Call a, Close pdf_path,
       Write html_path, Close html_path]"
  "\<not> scoped NoHandle [Open pdf_path ''rb'', Call a, Print, Close pdf_path]"
  "\<not> scoped NoHandle [Open pdf_path ''rb'', Close pdf_path]"
  by simp_all

text \<open>What a successful run has read, been given and written.\<close>

lemma written_dest:
  assumes "run X w = (Exit0, w')"
  shows "\<exists>bs buf out. open_rb w pdf_path = Inr bs \<and> X (the_call bs) = Inr buf \<and>
           utf8_encode (translate_newlines (linesep w) buf) = Inr out \<and>
           files w' html_path = Some out"
proof (cases rule: run_cases [of w X])
  case (succeeds bs buf wd out)
  from succeeds(5) assms have "files w' html_path = Some out" by auto
  with succeeds(1,2,4) show ?thesis by blast
qed (use assms in simp_all)

section \<open>The claims\<close>

subsection \<open>What reaches the destination\<close>

text \<open>
  C1. On every successful run the destination file finally holds exactly the
  UTF-8 encoding of the whole extraction buffer after the text stream's newline
  translation, in which every line feed is replaced by the platform's line separator;
  nothing of the file's earlier content remains. These bytes are the UTF-8 encoding of the
  buffer itself, byte for byte, when the platform's line separator is a line feed or the
  buffer holds no line feed.
\<close>

theorem written_content:
  assumes "run X w = (Exit0, w')"
  shows "\<exists>bs buf out. open_rb w pdf_path = Inr bs \<and> X (the_call bs) = Inr buf \<and>
           utf8_encode (translate_newlines (linesep w) buf) = Inr out \<and>
           files w' html_path = Some out \<and>
           (linesep w = [10] \<or> 10 \<notin> set buf \<longrightarrow> utf8_encode buf = Inr out)"
proof -
  from written_dest [OF assms] obtain bs buf out where
    h: "open_rb w pdf_path = Inr bs" "X (the_call bs) = Inr buf"
      "utf8_encode (translate_newlines (linesep w) buf) = Inr out"
      "files w' html_path = Some out"
    by blast
  have "linesep w = [10] \<or> 10 \<notin> set buf \<longrightarrow> utf8_encode buf = Inr out"
    using h(3) by (auto simp: translate_newlines_lf translate_newlines_none)
  with h show ?thesis by blast
qed

text \<open>
  On the Windows machine with a stale destination, a buffer of one line of markup is
  written with its line feed turned into carriage return and line feed, and a buffer
  without a line feed is written as its own UTF-8 encoding; the stale content is gone
  both times.
\<close>

theorem written_content_witness:
  "files stale_world html_path = Some stale_bytes \<and>
   files (snd (run markup_extract stale_world)) html_path = Some [60, 98, 114, 62, 13, 10] \<and>
   files (snd (run tag_extract stale_world)) html_path = Some [60, 98, 114, 62] \<and>
   utf8_encode [60, 98, 114, 62] = Inr [60, 98, 114, 62]"
proof -
  from written_content [OF run_markup_stale]
  obtain bs buf out where h: "open_rb stale_world pdf_path = Inr bs"
    "markup_extract (the_call bs) = Inr buf"
    "utf8_encode (translate_newlines (linesep stale_world) buf) = Inr out"
    "files (snd (run markup_extract stale_world)) html_path = Some out"
    by (auto simp add: run_markup_stale)
  from h(1) have "bs = pdf_bytes" by (simp add: open_rb_stale)
  with h(2) have "buf = [60, 98, 114, 62, 10]" by (simp add: sample_calls)
  with h(3) have "out = [60, 98, 114, 62, 13, 10]"
    by (simp add: stale_world_def windows_world_def translate_newlines_def utf8_char_def)
  with h(4) have 1: "files (snd (run markup_extract stale_world)) html_path =
      Some [60, 98, 114, 62, 13, 10]" by simp
  from written_content [OF run_tag_stale]
  obtain bs' buf' out' where k: "open_rb stale_world pdf_path = Inr bs'"
    "tag_extract (the_call bs') = Inr buf'"
    "files (snd (run tag_extract stale_world)) html_path = Some out'"
    "10 \<notin> set buf' \<longrightarrow> utf8_encode buf' = Inr out'"
    by (auto simp add: run_tag_stale)
  from k(1) have "bs' = pdf_bytes" by (simp add: open_rb_stale)
  with k(2) have b: "buf' = [60, 98, 114, 62]" by (simp add: sample_calls)
  with k(4) have "utf8_encode [60, 98, 114, 62] = Inr out'" by simp
  then have "out' = [60, 98, 114, 62]" by (simp add: utf8_char_def)
  with k(3) have 2: "files (snd (run tag_extract stale_world)) html_path =
      Some [60, 98, 114, 62]" by simp
  have 3: "utf8_encode [60, 98, 114, 62] = Inr [60, 98, 114, 62]"
    by (simp add: utf8_char_def)
  from 1 2 3 show ?thesis by (simp add: sample_destinations)
qed

text \<open>
  That the destination always holds the buffer byte for byte, with the same byte length,
  fails on the Windows machine: the run succeeds, the buffer is a single
  line feed, whose encoding is the one byte 10, and the destination holds the two bytes
  13 and 10.
\<close>

theorem written_bytes_counterexample:
  "fst (run newline_extract stale_world) = Exit0 \<and>
   open_rb stale_world pdf_path = Inr pdf_bytes \<and>
   newline_extract (the_call pdf_bytes) = Inr [10] \<and>
   utf8_encode [10] = Inr [10] \<and>
   files (snd (run newline_extract stale_world)) html_path = Some [13, 10] \<and>
   files (snd (run newline_extract stale_world)) html_path \<noteq> Some [10] \<and>
   length [13, 10 :: byte] \<noteq> length [10 :: byte]"
  by (simp add: run_newline_stale open_rb_stale sample_calls utf8_char_def)

subsection \<open>Running twice\<close>

text \<open>
  C2. With the extraction library a fixed function of its arguments, the conversion is
  deterministic: a second run, started in the world the first run left, ends as the first
  did and leaves the destination with the very content the first run left; and two
  successful runs on machines with the same source content and line separator leave the
  same destination content, whatever else differs between the machines.
\<close>

theorem rerun_same:
  "fst (run X (snd (run X w))) = fst (run X w) \<and>
   files (snd (run X (snd (run X w)))) html_path = files (snd (run X w)) html_path \<and>
   (open_rb v pdf_path = open_rb w pdf_path \<and> linesep v = linesep w \<and>
    fst (run X v) = Exit0 \<and> fst (run X w) = Exit0 \<longrightarrow>
      files (snd (run X v)) html_path = files (snd (run X w)) html_path)"
proof -
  have twice: "fst (run X (snd (run X w))) = fst (run X w) \<and>
     files (snd (run X (snd (run X w)))) html_path = files (snd (run X w)) html_path"
  proof (cases rule: run_cases [of w X])
    case (source_fails e)
    have "open_rb (snd (run X w)) pdf_path = Inl e"
      using source_fails(1) by (simp add: open_rb_after_run)
    from run_source_fails [OF this, of X] show ?thesis
      using source_fails(2) by (simp add: log_def)
  next
    case (extract_fails bs e)
    have "open_rb (snd (run X w)) pdf_path = Inr bs"
      using extract_fails(1) by (simp add: open_rb_after_run)
    from run_extract_fails [where X = X, OF this extract_fails(2)] show ?thesis
      using extract_fails(3) by simp
  next
    case (dest_fails bs buf e)
    have "open_rb (snd (run X w)) pdf_path = Inr bs"
      using dest_fails(1) by (simp add: open_rb_after_run)
    moreover have "open_w (snd (run X w)) html_path = Inl e"
      using dest_fails(3) by (simp add: open_w_after_run)
    ultimately have "run X (snd (run X w)) = (Unhandled e,
        (snd (run X w))\<lparr>trace := trace (snd (run X w)) @ [Open pdf_path ''rb'',
           Call (the_call bs), Close pdf_path, OpenFailed html_path ''w'']\<rparr>)"
      using dest_fails(2) by (metis run_dest_fails)
    then show ?thesis using dest_fails(4) by simp
  next
    case (write_fails bs buf wd e)
    have "open_rb (snd (run X w)) pdf_path = Inr bs"
      using write_fails(1) by (simp add: open_rb_after_run)
    moreover obtain wd' where "open_w (snd (run X w)) html_path = Inr wd'"
      using write_fails(3) open_w_after_run [of X w]
      by (cases "open_w (snd (run X w)) html_path") auto
    moreover have "utf8_encode (translate_newlines (linesep (snd (run X w))) buf) = Inl e"
      using write_fails(4) by (simp add: run_keeps)
    ultimately have "run X (snd (run X w)) = (Unhandled e,
        (snd (run X w))\<lparr>files := (files (snd (run X w)))(html_path \<mapsto> []),
           trace := trace (snd (run X w)) @ [Open pdf_path ''rb'', Call (the_call bs),
             Close pdf_path, Open html_path ''w'', WriteFailed html_path,
             Close html_path]\<rparr>)"
      using write_fails(2) by (metis run_write_fails)
    then show ?thesis using write_fails(5) by simp
  next
    case (succeeds bs buf wd out)
    have "open_rb (snd (run X w)) pdf_path = Inr bs"
      using succeeds(1) by (simp add: open_rb_after_run)
    moreover obtain wd' where "open_w (snd (run X w)) html_path = Inr wd'"
      using succeeds(3) open_w_after_run [of X w]
      by (cases "open_w (snd (run X w)) html_path") auto
    moreover have "utf8_encode (translate_newlines (linesep (snd (run X w))) buf) = Inr out"
      using succeeds(4) by (simp add: run_keeps)
    ultimately have "run X (snd (run X w)) = (Exit0,
        (snd (run X w))\<lparr>files := (files (snd (run X w)))(html_path \<mapsto> out),
           stdout := stdout (snd (run X w)) @ ''HTML saved to '' @ html_path @ [CHR 0x0A],
           trace := trace (snd (run X w)) @ [Open pdf_path ''rb'', Call (the_call bs),
             Close pdf_path, Open html_path ''w'', Write html_path, Close html_path,
             Print]\<rparr>)"
      using succeeds(2) by (metis run_succeeds)
    then show ?thesis using succeeds(5) by simp
  qed
  have two: "files (snd (run X v)) html_path = files (snd (run X w)) html_path"
    if src: "open_rb v pdf_path = open_rb w pdf_path" and sep: "linesep v = linesep w"
      and okv: "fst (run X v) = Exit0" and okw: "fst (run X w) = Exit0"
  proof -
    obtain v' w' where r: "run X v = (Exit0, v')" "run X w = (Exit0, w')"
      using okv okw by (metis prod.collapse)
    from written_dest [OF r(1)] written_dest [OF r(2)] src sep r show ?thesis by auto
  qed
  from twice two show ?thesis by blast
qed

text \<open>
  On the Windows machine a second conversion leaves the destination as the first did, and
  the machine with a stale destination and the one without end with the same content.
\<close>

theorem rerun_same_witness:
  "files (snd (run markup_extract (snd (run markup_extract stale_world)))) html_path =
     Some [60, 98, 114, 62, 13, 10] \<and>
   files stale_world html_path \<noteq> files windows_world html_path \<and>
   files (snd (run markup_extract stale_world)) html_path =
     files (snd (run markup_extract windows_world)) html_path"
proof -
  have "open_rb stale_world pdf_path = open_rb windows_world pdf_path \<and>
      linesep stale_world = linesep windows_world \<and>
      fst (run markup_extract stale_world) = Exit0 \<and>
      fst (run markup_extract windows_world) = Exit0"
  proof -
    have "linesep stale_world = linesep windows_world" by (simp add: stale_world_def)
    then show ?thesis
      by (simp add: open_rb_stale open_rb_windows run_markup_stale run_markup_windows)
  qed
  with rerun_same [of markup_extract windows_world stale_world]
  have "files (snd (run markup_extract stale_world)) html_path =
      files (snd (run markup_extract windows_world)) html_path" by blast
  moreover from rerun_same [of markup_extract stale_world]
  have "files (snd (run markup_extract (snd (run markup_extract stale_world)))) html_path =
      files (snd (run markup_extract stale_world)) html_path" by blast
  then have "files (snd (run markup_extract (snd (run markup_extract stale_world)))) html_path =
      Some [60, 98, 114, 62, 13, 10]" by (simp add: run_markup_stale)
  ultimately show ?thesis by (simp add: sample_destinations)
qed

subsection \<open>Failures\<close>

text \<open>
  C3. If the source path does not exist or is unreadable, the run ends with an uncaught
  error of the operating-system class and exit status 1, after the one failed attempt to
  open the source, and the filesystem is as it was: the destination is not created, and
  not modified if it was there.
\<close>

theorem missing_source_spares_destination:
  assumes "files w pdf_path = None \<or> pdf_path \<in> unreadable w"
  shows "\<exists>e. fst (run X w) = Unhandled e \<and> is_OSError e \<and>
           exit_status (fst (run X w)) = 1 \<and> files (snd (run X w)) = files w \<and>
           new_events X w = [OpenFailed pdf_path ''rb'']"
proof -
  from assms have "\<exists>e. open_rb w pdf_path = Inl e"
    by (auto simp add: open_rb_def split: option.splits)
  then obtain e where e: "open_rb w pdf_path = Inl e" ..
  from run_source_fails [OF e, of X] open_rb_error [OF e] show ?thesis
    by (simp add: log_def new_events_def)
qed

text \<open>With no source and a destination in place, the destination keeps its content.\<close>

theorem missing_source_spares_destination_witness:
  "files sourceless_world pdf_path = None \<and>
   fst (run markup_extract sourceless_world) = Unhandled FileNotFoundError \<and>
   files (snd (run markup_extract sourceless_world)) html_path = Some stale_bytes"
proof -
  have src: "files sourceless_world pdf_path = None"
    by (simp add: sourceless_world_def paths_distinct)
  then have "files sourceless_world pdf_path = None \<or> pdf_path \<in> unreadable sourceless_world"
    by simp
  from missing_source_spares_destination [OF this, of markup_extract]
  have "files (snd (run markup_extract sourceless_world)) = files sourceless_world" by blast
  then have "files (snd (run markup_extract sourceless_world)) html_path = Some stale_bytes"
    by (simp add: sample_destinations)
  moreover have "fst (run markup_extract sourceless_world) = Unhandled FileNotFoundError"
    by (simp add: run_source_fails [OF open_rb_sourceless])
  ultimately show ?thesis using src by simp
qed

text \<open>
  C4. A failure to open the source, of the extraction, or to open the destination is
  fatal: the run ends with that very error uncaught and exit status 1, prints nothing and
  leaves every file as it was. No run tries anything twice: it attempts to open the
  source once, the destination at most once, and calls the library at most once; and no
  run removes a file. In particular, when the destination's parent directory does not
  exist the run fails with exit status 1 and no destination file is created.
\<close>

theorem failures_are_fatal:
  "(open_rb w pdf_path = Inl e \<or>
    (\<exists>bs. open_rb w pdf_path = Inr bs \<and>
       (X (the_call bs) = Inl e \<or>
        (\<exists>buf. X (the_call bs) = Inr buf \<and> open_w w html_path = Inl e))) \<longrightarrow>
      fst (run X w) = Unhandled e \<and> exit_status (fst (run X w)) = 1 \<and>
      files (snd (run X w)) = files w \<and> stdout (snd (run X w)) = stdout w) \<and>
   open_attempts pdf_path (new_events X w) = 1 \<and>
   open_attempts html_path (new_events X w) \<le> 1 \<and>
   length (calls (new_events X w)) \<le> 1 \<and>
   dom (files w) \<subseteq> dom (files (snd (run X w))) \<and>
   (parent_dir html_path \<notin> dirs w \<longrightarrow>
      fst (run X w) \<noteq> Exit0 \<and> exit_status (fst (run X w)) = 1 \<and>
      files (snd (run X w)) = files w)"
proof (cases rule: run_cases [of w X])
  case (source_fails e')
  then show ?thesis by (simp add: new_events_def paths_distinct [symmetric])
next
  case (extract_fails bs e')
  then show ?thesis by (simp add: new_events_def paths_distinct [symmetric])
next
  case (dest_fails bs buf e')
  then show ?thesis by (simp add: new_events_def paths_distinct paths_distinct [symmetric])
next
  case (write_fails bs buf wd e')
  moreover from write_fails(3) have "parent_dir html_path \<in> dirs w"
    by (simp add: open_w_def split: if_splits)
  ultimately show ?thesis
    by (auto simp add: new_events_def paths_distinct paths_distinct [symmetric])
next
  case (succeeds bs buf wd out)
  moreover from succeeds(3) have "parent_dir html_path \<in> dirs w"
    by (simp add: open_w_def split: if_splits)
  ultimately show ?thesis
    by (auto simp add: new_events_def paths_distinct paths_distinct [symmetric])
qed

text \<open>
  A missing source, a library that raises, and a missing destination directory, each
  ending the run with its own error; in the last the destination is still absent.
\<close>

theorem failures_are_fatal_witness:
  "fst (run markup_extract sourceless_world) = Unhandled FileNotFoundError \<and>
   fst (run failing_extract windows_world) = Unhandled (ExtractionError ''PDFSyntaxError'') \<and>
   fst (run markup_extract dirless_world) = Unhandled FileNotFoundError \<and>
   parent_dir html_path \<notin> dirs dirless_world \<and>
   files (snd (run markup_extract dirless_world)) html_path = None"
proof -
  have "fst (run markup_extract sourceless_world) = Unhandled FileNotFoundError"
    using failures_are_fatal [of sourceless_world FileNotFoundError markup_extract]
      open_rb_sourceless by blast
  moreover have "fst (run failing_extract windows_world) =
      Unhandled (ExtractionError ''PDFSyntaxError'')"
    using failures_are_fatal [of windows_world "ExtractionError ''PDFSyntaxError''"
        failing_extract] open_rb_windows sample_calls(6)
    by blast
  moreover have "fst (run markup_extract dirless_world) = Unhandled FileNotFoundError"
    using failures_are_fatal [of dirless_world FileNotFoundError markup_extract]
      open_rb_dirless open_w_dirless sample_calls(1)
    by blast
  moreover have "files (snd (run markup_extract dirless_world)) html_path = None"
  proof -
    from failures_are_fatal [of dirless_world FileNotFoundError markup_extract] dirless_no_dir
    have "files (snd (run markup_extract dirless_world)) = files dirless_world" by blast
    then show ?thesis by (simp add: sample_destinations)
  qed
  ultimately show ?thesis using dirless_no_dir by simp
qed

subsection \<open>Standard output\<close>

text \<open>
  C5. A successful run adds to standard output exactly the text
  \<^verbatim>\<open>HTML saved to \<close> followed by the destination path and a line feed, which is one line
  since the text before the line feed holds none; a run that fails adds nothing.
\<close>

theorem confirmation_line:
  "(fst (run X w) = Exit0 \<longrightarrow>
      stdout (snd (run X w)) = stdout w @ ''HTML saved to '' @ html_path @ [CHR 0x0A]) \<and>
   (fst (run X w) \<noteq> Exit0 \<longrightarrow> stdout (snd (run X w)) = stdout w) \<and>
   CHR 0x0A \<notin> set (''HTML saved to '' @ html_path)"
proof -
  have "CHR 0x0A \<notin> set (''HTML saved to '' @ html_path)"
    by (simp add: html_path_def bsl_def)
  then show ?thesis by (cases rule: run_cases [of w X]) simp_all
qed

text \<open>A run that succeeds and one whose extraction raises, both from empty output.\<close>

theorem confirmation_line_witness:
  "stdout (snd (run markup_extract stale_world)) = ''HTML saved to '' @ html_path @ [CHR 0x0A] \<and>
   stdout (snd (run failing_extract windows_world)) = []"
proof -
  have "fst (run markup_extract stale_world) = Exit0"
    by (simp add: run_markup_stale)
  with confirmation_line [of markup_extract stale_world]
  have "stdout (snd (run markup_extract stale_world)) =
      stdout stale_world @ ''HTML saved to '' @ html_path @ [CHR 0x0A]" by blast
  moreover have "fst (run failing_extract windows_world) \<noteq> Exit0"
    by (simp add: run_extract_fails [OF open_rb_windows] sample_calls)
  with confirmation_line [of failing_extract windows_world]
  have "stdout (snd (run failing_extract windows_world)) = stdout windows_world" by blast
  ultimately show ?thesis by (simp add: stale_world_def windows_world_def)
qed

subsection \<open>Opening the destination\<close>

lemma run_surrogate_stale:
  "run surrogate_extract stale_world =
     (Unhandled UnicodeEncodeError,
      stale_world\<lparr>files := (files stale_world)(html_path \<mapsto> []),
        trace := trace stale_world @ [Open pdf_path ''rb'', Call (the_call pdf_bytes),
          Close pdf_path, Open html_path ''w'', WriteFailed html_path, Close html_path]\<rparr>)"
  by (rule run_write_fails [where buf = "[0xD800]", OF open_rb_stale _ open_w_stale])
     (simp_all add: sample_calls stale_world_def windows_world_def translate_newlines_def
        utf8_char_def)

text \<open>
  C6. In a run that has read the source and been given the buffer, the destination is
  opened for text writing in UTF-8. When the path is a directory, its parent directory is
  missing or the file may not be written, the open fails with an error of the
  operating-system class and every file is as it was. Otherwise the open succeeds and the
  file exists afterwards whether or not it did before, holding nothing of its earlier
  content: it holds the UTF-8 encoding of the text written, or nothing at all when the
  text cannot be encoded.
\<close>

theorem destination_open:
  assumes "open_rb w pdf_path = Inr bs" and "X (the_call bs) = Inr buf"
  shows "(html_path \<in> dirs w \<or> parent_dir html_path \<notin> dirs w \<or> html_path \<in> unwritable w \<longrightarrow>
           (\<exists>e. fst (run X w) = Unhandled e \<and> is_OSError e) \<and>
           OpenFailed html_path ''w'' \<in> set (new_events X w) \<and>
           files (snd (run X w)) = files w) \<and>
         (html_path \<notin> dirs w \<and> parent_dir html_path \<in> dirs w \<and> html_path \<notin> unwritable w \<longrightarrow>
           Open html_path ''w'' \<in> set (new_events X w) \<and>
           files (snd (run X w)) html_path =
             Some (case utf8_encode (translate_newlines (linesep w) buf) of
                     Inl e \<Rightarrow> [] | Inr out \<Rightarrow> out))"
proof (cases rule: run_cases [of w X])
  case (source_fails e)
  with assms show ?thesis by simp
next
  case (extract_fails bs' e)
  with assms show ?thesis by simp
next
  case (dest_fails bs' buf' e)
  from dest_fails(3) have "is_OSError e" by (rule open_w_error)
  moreover from dest_fails(3)
  have "html_path \<in> dirs w \<or> parent_dir html_path \<notin> dirs w \<or> html_path \<in> unwritable w"
    by (simp add: open_w_def split: if_splits)
  ultimately show ?thesis using dest_fails(4) by (simp add: new_events_def)
next
  case (write_fails bs' buf' wd e)
  from write_fails(3)
  have "html_path \<notin> dirs w \<and> parent_dir html_path \<in> dirs w \<and> html_path \<notin> unwritable w"
    by (simp add: open_w_def split: if_splits)
  moreover from write_fails(1,2) assms have "buf' = buf" by simp
  ultimately show ?thesis using write_fails(4,5) by (simp add: new_events_def)
next
  case (succeeds bs' buf' wd out)
  from succeeds(3)
  have "html_path \<notin> dirs w \<and> parent_dir html_path \<in> dirs w \<and> html_path \<notin> unwritable w"
    by (simp add: open_w_def split: if_splits)
  moreover from succeeds(1,2) assms have "buf' = buf" by simp
  ultimately show ?thesis using succeeds(4,5) by (simp add: new_events_def)
qed

text \<open>
  The destination created where there was none; cut to nothing where there was one and
  the text could not be encoded; and left absent where its directory is missing.
\<close>

theorem destination_open_witness:
  "files windows_world html_path = None \<and>
   files (snd (run markup_extract windows_world)) html_path = Some [60, 98, 114, 62, 13, 10] \<and>
   files stale_world html_path = Some stale_bytes \<and>
   files (snd (run surrogate_extract stale_world)) html_path = Some [] \<and>
   (\<exists>e. fst (run markup_extract dirless_world) = Unhandled e \<and> is_OSError e) \<and>
   files (snd (run markup_extract dirless_world)) html_path = None"
proof -
  from destination_open [where X = markup_extract, OF open_rb_windows sample_calls(1)]
    windows_ok
  have "files (snd (run markup_extract windows_world)) html_path =
      Some (case utf8_encode (translate_newlines (linesep windows_world) [60, 98, 114, 62, 10]) of
              Inl e \<Rightarrow> [] | Inr out \<Rightarrow> out)" by blast
  then have 1: "files (snd (run markup_extract windows_world)) html_path =
      Some [60, 98, 114, 62, 13, 10]"
    by (simp add: windows_world_def translate_newlines_def utf8_char_def)
  from destination_open [where X = surrogate_extract, OF open_rb_stale sample_calls(5)]
    stale_ok
  have "files (snd (run surrogate_extract stale_world)) html_path =
      Some (case utf8_encode (translate_newlines (linesep stale_world) [0xD800]) of
              Inl e \<Rightarrow> [] | Inr out \<Rightarrow> out)" by blast
  then have 2: "files (snd (run surrogate_extract stale_world)) html_path = Some []"
    by (simp add: stale_world_def windows_world_def translate_newlines_def utf8_char_def)
  from destination_open [where X = markup_extract, OF open_rb_dirless sample_calls(1)]
    dirless_no_dir
  have 3: "(\<exists>e. fst (run markup_extract dirless_world) = Unhandled e \<and> is_OSError e) \<and>
      files (snd (run markup_extract dirless_world)) = files dirless_world" by blast
  then have 4: "files (snd (run markup_extract dirless_world)) html_path = None"
    by (simp add: sample_destinations)
  from 1 2 3 4 sample_destinations(1,2) show ?thesis by blast
qed

subsection \<open>The extraction call\<close>

text \<open>
  C7. When the source opens, the run invokes the extraction routine once, between the
  opening and the closing of the source, on the bytes of the source, with a
  layout-parameters object constructed without arguments, the output type \<^verbatim>\<open>html\<close>
  and no codec. What the routine does at exactly these arguments decides the run: if it
  raises there, the run ends with that error uncaught; if it returns there having written
  a buffer, that buffer is what the run goes on to write, so that the run ends with the
  error of the destination's open when that fails, and otherwise leaves the destination
  with the encoding of that buffer and succeeds, or with nothing and the encoding error
  when the buffer cannot be encoded. The run uses the library through this one call only,
  so that two libraries that agree on it give the same run. When the source does not
  open, the routine is not called.
\<close>

theorem extraction_call:
  "(\<forall>bs. open_rb w pdf_path = Inr bs \<longrightarrow>
      take 3 (new_events X w) =
        [Open pdf_path ''rb'',
         Call \<lparr>source_bytes = bs, laparams = LAParams [], output_type = ''html'', codec = None\<rparr>,
         Close pdf_path] \<and>
      calls (new_events X w) =
        [\<lparr>source_bytes = bs, laparams = LAParams [], output_type = ''html'', codec = None\<rparr>] \<and>
      (X' \<lparr>source_bytes = bs, laparams = LAParams [], output_type = ''html'', codec = None\<rparr> =
       X \<lparr>source_bytes = bs, laparams = LAParams [], output_type = ''html'', codec = None\<rparr> \<longrightarrow>
         run X' w = run X w) \<and>
      (\<forall>e. X \<lparr>source_bytes = bs, laparams = LAParams [], output_type = ''html'',
                codec = None\<rparr> = Inl e \<longrightarrow>
         fst (run X w) = Unhandled e \<and> files (snd (run X w)) = files w) \<and>
      (\<forall>buf. X \<lparr>source_bytes = bs, laparams = LAParams [], output_type = ''html'',
                codec = None\<rparr> = Inr buf \<longrightarrow>
         (\<forall>e. open_w w html_path = Inl e \<longrightarrow> fst (run X w) = Unhandled e) \<and>
         (html_path \<notin> dirs w \<and> parent_dir html_path \<in> dirs w \<and> html_path \<notin> unwritable w \<longrightarrow>
            (case utf8_encode (translate_newlines (linesep w) buf) of
               Inl e \<Rightarrow>
                 fst (run X w) = Unhandled e \<and> files (snd (run X w)) html_path = Some []
             | Inr out \<Rightarrow>
                 fst (run X w) = Exit0 \<and> files (snd (run X w)) html_path = Some out)))) \<and>
   ((\<exists>e. open_rb w pdf_path = Inl e) \<longrightarrow> calls (new_events X w) = [])"
proof (cases "open_rb w pdf_path")
  case (Inl e)
  from run_source_fails [OF this, of X] Inl show ?thesis
    by (simp add: new_events_def log_def)
next
  case (Inr bs)
  have ev: "take 3 (new_events X w) = [Open pdf_path ''rb'', Call (the_call bs), Close pdf_path]
      \<and> calls (new_events X w) = [the_call bs]"
    using Inr by (cases rule: run_cases [of w X]) (simp_all add: new_events_def)
  have same: "run X' w = run X w" if "X' (the_call bs) = X (the_call bs)"
    using Inr that by (simp add: run_def)
  have raises: "fst (run X w) = Unhandled e \<and> files (snd (run X w)) = files w"
    if "X (the_call bs) = Inl e" for e
    using run_extract_fails [where X = X, OF Inr that] by simp
  have closed: "fst (run X w) = Unhandled e"
    if "X (the_call bs) = Inr buf" and "open_w w html_path = Inl e" for buf e
    using run_dest_fails [where X = X, OF Inr that] by simp
  have written: "case utf8_encode (translate_newlines (linesep w) buf) of
        Inl e \<Rightarrow> fst (run X w) = Unhandled e \<and> files (snd (run X w)) html_path = Some []
      | Inr out \<Rightarrow> fst (run X w) = Exit0 \<and> files (snd (run X w)) html_path = Some out"
    if buf: "X (the_call bs) = Inr buf"
      and ok: "html_path \<notin> dirs w \<and> parent_dir html_path \<in> dirs w \<and> html_path \<notin> unwritable w"
    for buf
  proof -
    from ok obtain wd where wd: "open_w w html_path = Inr wd"
      by (simp add: open_w_def)
    show ?thesis
    proof (cases "utf8_encode (translate_newlines (linesep w) buf)")
      case (Inl e)
      from run_write_fails [where X = X, OF Inr buf wd Inl] Inl show ?thesis by simp
    next
      case out: (Inr out)
      from run_succeeds [where X = X, OF Inr buf wd out] out show ?thesis by simp
    qed
  qed
  from ev same raises closed written Inr show ?thesis by simp
qed

text \<open>
  On the Windows machine: the call; a routine that returns markup, whose markup reaches
  the destination; a routine that raises, whose error ends the run; a routine that
  returns markup only when asked for HTML with default layout and no codec and raises
  otherwise, which gives the run of the first; a routine that raises exactly when asked
  for that and returns markup otherwise, which ends the run with its error. And no call
  without a source.
\<close>

theorem extraction_call_witness:
  "calls (new_events markup_extract windows_world) =
     [\<lparr>source_bytes = pdf_bytes, laparams = LAParams [], output_type = ''html'', codec = None\<rparr>] \<and>
   fst (run markup_extract windows_world) = Exit0 \<and>
   files (snd (run markup_extract windows_world)) html_path = Some [60, 98, 114, 62, 13, 10] \<and>
   fst (run failing_extract windows_world) = Unhandled (ExtractionError ''PDFSyntaxError'') \<and>
   run (\<lambda>a. if codec a = None \<and> output_type a = ''html'' \<and> laparams a = LAParams []
            then markup_extract a else failing_extract a) windows_world =
     run markup_extract windows_world \<and>
   fst (run (\<lambda>a. if codec a = None \<and> output_type a = ''html'' \<and> laparams a = LAParams []
            then failing_extract a else markup_extract a) windows_world) =
     Unhandled (ExtractionError ''PDFSyntaxError'') \<and>
   calls (new_events markup_extract sourceless_world) = []"
proof -
  note m = extraction_call [of windows_world markup_extract]
  from m open_rb_windows
  have 1: "calls (new_events markup_extract windows_world) = [the_call pdf_bytes]" by blast
  have enc: "utf8_encode (translate_newlines (linesep windows_world) [60, 98, 114, 62, 10]) =
      Inr [60, 98, 114, 62, 13, 10]"
    by (simp add: windows_world_def translate_newlines_def utf8_char_def)
  from m open_rb_windows sample_calls(1) windows_ok
  have "case utf8_encode (translate_newlines (linesep windows_world) [60, 98, 114, 62, 10]) of
        Inl e \<Rightarrow> fst (run markup_extract windows_world) = Unhandled e \<and>
          files (snd (run markup_extract windows_world)) html_path = Some []
      | Inr out \<Rightarrow> fst (run markup_extract windows_world) = Exit0 \<and>
          files (snd (run markup_extract windows_world)) html_path = Some out"
    by blast
  with enc have 2: "fst (run markup_extract windows_world) = Exit0 \<and>
      files (snd (run markup_extract windows_world)) html_path = Some [60, 98, 114, 62, 13, 10]"
    by simp
  from extraction_call [of windows_world failing_extract] open_rb_windows sample_calls(6)
  have 3: "fst (run failing_extract windows_world) =
      Unhandled (ExtractionError ''PDFSyntaxError'')" by blast
  from extraction_call [of windows_world markup_extract
      "\<lambda>a. if codec a = None \<and> output_type a = ''html'' \<and> laparams a = LAParams []
            then markup_extract a else failing_extract a"] open_rb_windows
  have 4: "run (\<lambda>a. if codec a = None \<and> output_type a = ''html'' \<and> laparams a = LAParams []
            then markup_extract a else failing_extract a) windows_world =
     run markup_extract windows_world" by simp
  have "(\<lambda>a. if codec a = None \<and> output_type a = ''html'' \<and> laparams a = LAParams []
            then failing_extract a else markup_extract a) (the_call pdf_bytes) =
      Inl (ExtractionError ''PDFSyntaxError'')"
    by (simp add: sample_calls)
  with extraction_call [of windows_world
      "\<lambda>a. if codec a = None \<and> output_type a = ''html'' \<and> laparams a = LAParams []
            then failing_extract a else markup_extract a"] open_rb_windows
  have 5: "fst (run (\<lambda>a. if codec a = None \<and> output_type a = ''html'' \<and> laparams a = LAParams []
            then failing_extract a else markup_extract a) windows_world) =
     Unhandled (ExtractionError ''PDFSyntaxError'')" by blast
  from extraction_call [of sourceless_world markup_extract] open_rb_sourceless
  have 6: "calls (new_events markup_extract sourceless_world) = []" by blast
  from 1 2 3 4 5 6 show ?thesis by blast
qed

subsection \<open>File handles\<close>

text \<open>
  C8. In every run, whatever its outcome, the file handles are scoped: the source's handle
  is opened, used by the extraction call alone and closed by the next event; the
  destination's handle is opened, used by the write alone and closed by the next event;
  the two are never open together, and none is open when the run ends.
\<close>

theorem handles_are_scoped: "scoped NoHandle (new_events X w)"
  by (cases rule: run_cases [of w X]) (simp_all add: new_events_def paths_distinct)

text \<open>The events of a successful run, which the monitor accepts.\<close>

theorem handles_are_scoped_witness:
  "new_events markup_extract windows_world =
     [Open pdf_path ''rb'', Call (the_call pdf_bytes), Close pdf_path,
      Open html_path ''w'', Write html_path, Close html_path, Print] \<and>
   scoped NoHandle [Open pdf_path ''rb'', Call (the_call pdf_bytes), Close pdf_path,
      Open html_path ''w'', Write html_path, Close html_path, Print]"
proof -
  have "new_events markup_extract windows_world =
     [Open pdf_path ''rb'', Call (the_call pdf_bytes), Close pdf_path,
      Open html_path ''w'', Write html_path, Close html_path, Print]"
    by (simp add: new_events_def run_markup_windows)
  with handles_are_scoped [of markup_extract windows_world] show ?thesis by simp
qed

subsection \<open>Extraction before the destination\<close>

text \<open>
  C9. When the extraction routine raises, the run ends with that error, the files and
  directories are as they were, and no event of the run concerns the destination path:
  it is not opened, created or modified. In every run, no event up to and including the
  extraction call concerns the destination: the destination is opened only after the
  extraction has returned.
\<close>

theorem extraction_failure_spares_destination:
  "(\<forall>bs e. open_rb w pdf_path = Inr bs \<and> X (the_call bs) = Inl e \<longrightarrow>
      fst (run X w) = Unhandled e \<and> files (snd (run X w)) = files w \<and>
      dirs (snd (run X w)) = dirs w \<and>
      \<not> list_ex (touches html_path) (new_events X w)) \<and>
   \<not> list_ex (touches html_path) (upto_call (new_events X w))"
  by (cases rule: run_cases [of w X])
     (simp_all add: new_events_def paths_distinct paths_distinct [symmetric])

text \<open>A library that raises, with a destination in place and with none.\<close>

theorem extraction_failure_spares_destination_witness:
  "fst (run failing_extract stale_world) = Unhandled (ExtractionError ''PDFSyntaxError'') \<and>
   files (snd (run failing_extract stale_world)) html_path = Some stale_bytes \<and>
   files (snd (run failing_extract windows_world)) html_path = None"
proof -
  from extraction_failure_spares_destination [of stale_world failing_extract]
    open_rb_stale sample_calls(6)
  have "fst (run failing_extract stale_world) = Unhandled (ExtractionError ''PDFSyntaxError'') \<and>
      files (snd (run failing_extract stale_world)) = files stale_world" by blast
  moreover
  from extraction_failure_spares_destination [of windows_world failing_extract]
    open_rb_windows sample_calls(6)
  have "files (snd (run failing_extract windows_world)) = files windows_world" by blast
  ultimately show ?thesis by (simp add: sample_destinations)
qed

subsection \<open>Empty output\<close>

text \<open>
  C10. If the source opens, the extraction returns having written nothing, and the
  destination can be opened, the run succeeds with exit status 0: the destination exists
  with empty content, whether created or cut down, and the confirmation line is printed.
\<close>

theorem empty_output_still_succeeds:
  assumes "open_rb w pdf_path = Inr bs" and "X (the_call bs) = Inr []"
    and "html_path \<notin> dirs w" and "parent_dir html_path \<in> dirs w"
    and "html_path \<notin> unwritable w"
  shows "fst (run X w) = Exit0 \<and> exit_status (fst (run X w)) = 0 \<and>
         files (snd (run X w)) html_path = Some [] \<and>
         stdout (snd (run X w)) = stdout w @ ''HTML saved to '' @ html_path @ [CHR 0x0A]"
proof -
  from assms(3-5) obtain wd where "open_w w html_path = Inr wd"
    by (simp add: open_w_def)
  moreover have "utf8_encode (translate_newlines (linesep w) []) = Inr []"
    by (simp add: translate_newlines_def)
  ultimately have "run X w = (Exit0,
     w\<lparr>files := (files w)(html_path \<mapsto> []),
       stdout := stdout w @ ''HTML saved to '' @ html_path @ [CHR 0x0A],
       trace := trace w @ [Open pdf_path ''rb'', Call (the_call bs), Close pdf_path,
          Open html_path ''w'', Write html_path, Close html_path, Print]\<rparr>)"
    using assms(1,2) by (metis run_succeeds)
  then show ?thesis by simp
qed

text \<open>Empty output over a stale destination, and where there was no destination.\<close>

theorem empty_output_still_succeeds_witness:
  "fst (run empty_extract stale_world) = Exit0 \<and>
   files stale_world html_path = Some stale_bytes \<and>
   files (snd (run empty_extract stale_world)) html_path = Some [] \<and>
   files windows_world html_path = None \<and>
   files (snd (run empty_extract windows_world)) html_path = Some [] \<and>
   stdout (snd (run empty_extract windows_world)) = ''HTML saved to '' @ html_path @ [CHR 0x0A]"
proof -
  note a = empty_output_still_succeeds
    [where X = empty_extract, OF open_rb_stale sample_calls(4) stale_ok]
  note b = empty_output_still_succeeds
    [where X = empty_extract, OF open_rb_windows sample_calls(4) windows_ok]
  have "stdout windows_world = []" by (simp add: windows_world_def)
  with a b sample_destinations(1,2) show ?thesis by simp
qed

end
